theory Spec2Isabelle
  imports
    Main
    "HOL-Library.Char_ord"
    "HOL-Library.List_Lexorder"
    "HOL-Library.Product_Lexorder"
    "HOL-Library.Multiset"
    "HOL-Library.Sublist"
begin

section \<open>The ComCat event document\<close>

text \<open>
  The embedding follows \<^verbatim>\<open>src/eewperformance/comcat.py\<close>: the classes
  \<^verbatim>\<open>DetailEvent\<close> and \<^verbatim>\<open>Product\<close>. Python integers are \<^typ>\<open>int\<close>, Python
  strings are \<^typ>\<open>string\<close>, a raised exception is the left summand of a result.

  Modelling conventions that hold throughout:
  \<^item> The interpreter is Python 3 with a current numpy. The document comes from
    \<^verbatim>\<open>json.load\<close>, so its strings are \<^verbatim>\<open>str\<close> objects, while the column
    \<^verbatim>\<open>source\<close> of the structured array \<^verbatim>\<open>df\<close> has the type \<^verbatim>\<open>S64\<close> and holds
    byte strings. A \<^verbatim>\<open>str\<close> and a byte string are never equal.
  \<^item> A character is a \<^typ>\<open>char\<close>, both in a \<^verbatim>\<open>str\<close> and in a byte string; a
    character whose code is 128 or more is outside ASCII. Byte strings are ordered
    lexicographically by character code.
  \<^item> A mapping that the code iterates over (\<^verbatim>\<open>contents\<close>) is an association list in
    iteration order.
\<close>

text \<open>A Python value that is either a \<^verbatim>\<open>str\<close> or a \<^verbatim>\<open>bytes\<close> object.\<close>

datatype pystring = PyStr string | PyBytes string

record content =
  url :: string

record submission =
  preferredWeight :: int
  source :: string
  updateTime :: int
  properties :: "(string \<times> string) list"
  contents :: "(string \<times> content) list"

text \<open>\<^verbatim>\<open>DetailEvent._jdict\<close>: the fields of the document that the modelled methods read.\<close>

record detail_event =
  event_id :: string
  time_in_msec :: int
  products :: "string \<rightharpoonup> submission list"

text \<open>\<^verbatim>\<open>Product\<close>: the attributes \<^verbatim>\<open>_product_name\<close>, \<^verbatim>\<open>_version\<close>, \<^verbatim>\<open>_product\<close>.\<close>

record product =
  product_name :: string
  version :: int
  product_data :: submission

section \<open>Origin and update time\<close>

text \<open>
  \<^verbatim>\<open>DetailEvent.time\<close> and \<^verbatim>\<open>Product.update_time\<close> run the same four lines:
  \<^verbatim>\<open>time_in_sec = time_in_msec//1000\<close>, \<^verbatim>\<open>msec = time_in_msec - (time_in_sec*1000)\<close>, then
  \<^verbatim>\<open>datetime.utcfromtimestamp(time_in_sec) + timedelta(milliseconds=msec)\<close>. Python's
  \<^verbatim>\<open>//\<close> on integers is floor division, which is \<^term>\<open>(div)\<close> on \<^typ>\<open>int\<close>.
  The pair returned here is what is handed to \<^verbatim>\<open>utcfromtimestamp\<close> and \<^verbatim>\<open>timedelta\<close>.
\<close>

definition split_msec :: "int \<Rightarrow> int \<times> int" where
  "split_msec t_msec =
     (let time_in_sec = t_msec div 1000;
          msec = t_msec - (time_in_sec * 1000)
      in (time_in_sec, msec))"

definition DetailEvent_time :: "detail_event \<Rightarrow> int \<times> int" where
  "DetailEvent_time ev = split_msec (time_in_msec ev)"

definition Product_update_time :: "product \<Rightarrow> int \<times> int" where
  "Product_update_time p = split_msec (updateTime (product_data p))"

section \<open>Exceptions\<close>

text \<open>
  Every \<^verbatim>\<open>raise\<close> of \<^verbatim>\<open>get_product\<close> raises \<^verbatim>\<open>AttributeError\<close>; the
  constructor argument records which one. \<^verbatim>\<open>No_attribute_iterrows\<close> is the
  \<^verbatim>\<open>AttributeError\<close> that Python raises for \<^verbatim>\<open>df.iterrows()\<close>: \<^verbatim>\<open>df\<close> is a
  \<^verbatim>\<open>numpy.ndarray\<close>, which has no such attribute. \<^verbatim>\<open>ValueError\<close> is what
  \<^verbatim>\<open>numpy.argmax\<close> raises on an empty array, \<^verbatim>\<open>IndexError\<close> what indexing out of
  range raises. \<^verbatim>\<open>OverflowError\<close> and \<^verbatim>\<open>UnicodeEncodeError\<close> are raised when a
  value of the document cannot be stored in its column of \<^verbatim>\<open>df\<close>.
\<close>

datatype attribute_error =
    No_product_of_type
  | No_products_for_source
  | No_VersionOption
  | No_attribute_iterrows

datatype error =
    AttributeError attribute_error
  | ValueError
  | IndexError
  | OverflowError
  | UnicodeEncodeError

text \<open>Indexing a Python list or an array at a position counted from the front.\<close>

definition py_index :: "'a list \<Rightarrow> nat \<Rightarrow> error + 'a" where
  "py_index xs i = (if i < length xs then Inr (xs ! i) else Inl IndexError)"

text \<open>\<^verbatim>\<open>df[-1]\<close> and \<^verbatim>\<open>df[0]\<close>.\<close>

definition last_row :: "'a list \<Rightarrow> error + 'a" where
  "last_row df = (if df = [] then Inl IndexError else Inr (last df))"

definition first_row :: "'a list \<Rightarrow> error + 'a" where
  "first_row df = (case df of [] \<Rightarrow> Inl IndexError | r # _ \<Rightarrow> Inr r)"

section \<open>The version table\<close>

text \<open>\<^verbatim>\<open>class VersionOption\<close>.\<close>

definition VersionOption_LAST :: int where "VersionOption_LAST = 1"
definition VersionOption_FIRST :: int where "VersionOption_FIRST = 2"
definition VersionOption_ALL :: int where "VersionOption_ALL = 3"
definition VersionOption_PREFERRED :: int where "VersionOption_PREFERRED = 4"

text \<open>One element of the structured array \<^verbatim>\<open>df\<close>, with the columns of \<^verbatim>\<open>dtype\<close>.\<close>

record row =
  df_weight :: int
  df_source :: string
  df_time :: int
  df_index :: nat
  df_version :: int

text \<open>
  What the columns can hold. An \<^verbatim>\<open>int32\<close> or \<^verbatim>\<open>int64\<close> column takes a Python integer
  of its range; numpy raises \<^verbatim>\<open>OverflowError\<close> for any other (releases before 2.0
  stored an out-of-range weight modulo \<open>2 ^ 32\<close> instead, when it fitted 64 bits). An
  \<^verbatim>\<open>S64\<close> column encodes a \<^verbatim>\<open>str\<close> as ASCII, which raises
  \<^verbatim>\<open>UnicodeEncodeError\<close> for a character outside ASCII, keeps the first 64 bytes, and
  reads an entry back without its trailing zero bytes.
\<close>

definition in_int32 :: "int \<Rightarrow> bool" where
  "in_int32 v = (- 2147483648 \<le> v \<and> v < 2147483648)"

definition in_int64 :: "int \<Rightarrow> bool" where
  "in_int64 v = (- 9223372036854775808 \<le> v \<and> v < 9223372036854775808)"

definition is_ascii :: "string \<Rightarrow> bool" where
  "is_ascii s = list_all (\<lambda>c. (of_char c :: nat) < 128) s"

definition strip_nul :: "string \<Rightarrow> string" where
  "strip_nul b = rev (dropWhile (\<lambda>c. c = CHR 0x00) (rev b))"

definition S64 :: "string \<Rightarrow> string" where
  "S64 s = strip_nul (take 64 s)"

text \<open>
  Lines 237 to 243: one row per submission, \<^verbatim>\<open>index\<close> the position in the document's
  list, \<^verbatim>\<open>version\<close> zero. The columns are assigned in the order \<^verbatim>\<open>weight\<close>,
  \<^verbatim>\<open>source\<close>, \<^verbatim>\<open>time\<close>, and the first assignment that cannot store a value ends the
  call. \<open>build_rows\<close> is the array when all three assignments succeed.
\<close>

definition build_rows :: "submission list \<Rightarrow> row list" where
  "build_rows subs =
     map (\<lambda>(i, p). \<lparr>df_weight = preferredWeight p, df_source = S64 (source p),
                     df_time = updateTime p, df_index = i, df_version = 0\<rparr>)
         (enumerate 0 subs)"

definition make_rows :: "submission list \<Rightarrow> error + row list" where
  "make_rows subs =
     (if \<not> list_all (\<lambda>p. in_int32 (preferredWeight p)) subs then Inl OverflowError
      else if \<not> list_all (\<lambda>p. is_ascii (source p)) subs then Inl UnicodeEncodeError
      else if \<not> list_all (\<lambda>p. in_int64 (updateTime p)) subs then Inl OverflowError
      else Inr (build_rows subs))"

text \<open>
  A submission whose values the columns hold unchanged: then the entry of the column
  \<^verbatim>\<open>source\<close> has the characters of the submission's source.
\<close>

definition fits_columns :: "submission \<Rightarrow> bool" where
  "fits_columns p =
     (in_int32 (preferredWeight p) \<and> is_ascii (source p) \<and> length (source p) \<le> 64
      \<and> strip_nul (source p) = source p \<and> in_int64 (updateTime p))"

text \<open>
  \<^verbatim>\<open>df.sort(order=...)\<close> on a structured array compares the named fields first and then
  the fields that were not named, in the order of the dtype, to break ties. The comparison
  is therefore a total order on whole rows and the result does not depend on the sorting
  algorithm. The three orders that \<^verbatim>\<open>get_product\<close> uses:
  \<^verbatim>\<open>order=["source", "time"]\<close>, \<^verbatim>\<open>order="time"\<close> and \<^verbatim>\<open>order=["weight", "time"]\<close>.
\<close>

definition key_source_time :: "row \<Rightarrow> string \<times> int \<times> int \<times> nat \<times> int" where
  "key_source_time r = (df_source r, df_time r, df_weight r, df_index r, df_version r)"

definition key_time :: "row \<Rightarrow> int \<times> int \<times> string \<times> nat \<times> int" where
  "key_time r = (df_time r, df_weight r, df_source r, df_index r, df_version r)"

definition key_weight_time :: "row \<Rightarrow> int \<times> int \<times> string \<times> nat \<times> int" where
  "key_weight_time r = (df_weight r, df_time r, df_source r, df_index r, df_version r)"

definition sort_source_time :: "row list \<Rightarrow> row list" where
  "sort_source_time df = sort_key key_source_time df"

definition sort_time :: "row list \<Rightarrow> row list" where
  "sort_time df = sort_key key_time df"

definition sort_weight_time :: "row list \<Rightarrow> row list" where
  "sort_weight_time df = sort_key key_weight_time df"

text \<open>
  Lines 247 to 254: the loop that numbers the rows. \<^verbatim>\<open>psources\<close> and \<^verbatim>\<open>pversion\<close>
  are the loop's two variables; writing \<^verbatim>\<open>row["version"]\<close> writes into \<^verbatim>\<open>df\<close>.
\<close>

fun assign_versions :: "string list \<Rightarrow> int \<Rightarrow> row list \<Rightarrow> row list" where
  "assign_versions psources pversion [] = []"
| "assign_versions psources pversion (r # rest) =
     (let new = (df_source r \<notin> set psources);
          psources' = (if new then psources @ [df_source r] else psources);
          pversion' = (if new then 1 else pversion)
      in r\<lparr>df_version := pversion'\<rparr> # assign_versions psources' (pversion' + 1) rest)"

definition version_table :: "submission list \<Rightarrow> error + row list" where
  "version_table subs =
     (case make_rows subs of
        Inl e \<Rightarrow> Inl e
      | Inr df \<Rightarrow> Inr (assign_versions [] 1 (sort_source_time df)))"

section \<open>Selecting products\<close>

text \<open>\<^verbatim>\<open>numpy.argmax\<close>: the position of the first maximum; an empty array is an error.\<close>

fun argmax_from :: "nat \<Rightarrow> int \<Rightarrow> nat \<Rightarrow> int list \<Rightarrow> nat" where
  "argmax_from best best_val i [] = best"
| "argmax_from best best_val i (x # xs) =
     (if best_val < x then argmax_from i x (Suc i) xs
      else argmax_from best best_val (Suc i) xs)"

definition argmax :: "int list \<Rightarrow> error + nat" where
  "argmax xs = (case xs of [] \<Rightarrow> Inl ValueError | x # rest \<Rightarrow> Inr (argmax_from 0 x 1 rest))"

text \<open>
  \<^verbatim>\<open>Product(productName, pversion, self._jdict["properties"]["products"][productName][index])\<close>
  for one row, appended to \<^verbatim>\<open>products\<close>.
\<close>

definition make_product :: "string \<Rightarrow> submission list \<Rightarrow> row \<Rightarrow> error + product list" where
  "make_product productName subs r =
     (case py_index subs (df_index r) of
        Inl e \<Rightarrow> Inl e
      | Inr p \<Rightarrow> Inr [\<lparr>product_name = productName, version = df_version r, product_data = p\<rparr>])"

text \<open>
  The chain on \<^verbatim>\<open>version\<close>, which lines 276 to 299 and lines 301 to 324 both spell out,
  for one array of rows. The branch for \<^verbatim>\<open>VersionOption.ALL\<close> starts with
  \<^verbatim>\<open>df.iterrows()\<close>, an attribute that a numpy array does not have.
\<close>

definition select_version ::
    "string \<Rightarrow> submission list \<Rightarrow> int \<Rightarrow> row list \<Rightarrow> error + product list" where
  "select_version productName subs vers df =
     (if vers = VersionOption_PREFERRED then
        (case last_row (sort_weight_time df) of
           Inl e \<Rightarrow> Inl e | Inr r \<Rightarrow> make_product productName subs r)
      else if vers = VersionOption_LAST then
        (case last_row df of
           Inl e \<Rightarrow> Inl e | Inr r \<Rightarrow> make_product productName subs r)
      else if vers = VersionOption_FIRST then
        (case first_row df of
           Inl e \<Rightarrow> Inl e | Inr r \<Rightarrow> make_product productName subs r)
      else if vers = VersionOption_ALL then Inl (AttributeError No_attribute_iterrows)
      else Inl (AttributeError No_VersionOption))"

text \<open>
  Lines 273 to 299: the loop over \<^verbatim>\<open>usources\<close>. Each source's rows are cut out of
  \<^verbatim>\<open>df\<close>, sorted by time and resolved; the first exception ends the call.
\<close>

fun all_sources_loop ::
    "string \<Rightarrow> submission list \<Rightarrow> int \<Rightarrow> row list \<Rightarrow> string list \<Rightarrow> error + product list" where
  "all_sources_loop productName subs vers df [] = Inr []"
| "all_sources_loop productName subs vers df (s # usources) =
     (let df_source_rows = sort_time (filter (\<lambda>r. df_source r = s) df)
      in case select_version productName subs vers df_source_rows of
           Inl e \<Rightarrow> Inl e
         | Inr ps \<Rightarrow>
             (case all_sources_loop productName subs vers df usources of
                Inl e \<Rightarrow> Inl e
              | Inr qs \<Rightarrow> Inr (ps @ qs)))"

text \<open>
  Lines 257 and 258: \<^verbatim>\<open>numpy.argmax(df["weight"])\<close> is a position in \<^verbatim>\<open>df\<close>, which
  line 246 has sorted by source and time, and \<^verbatim>\<open>prefsource\<close> is the source of the
  document's list at that position, a \<^verbatim>\<open>str\<close>.
\<close>

definition preferred_source :: "submission list \<Rightarrow> row list \<Rightarrow> error + string" where
  "preferred_source subs df =
     (case argmax (map df_weight df) of
        Inl e \<Rightarrow> Inl e
      | Inr index \<Rightarrow>
          (case py_index subs index of
             Inl e \<Rightarrow> Inl e
           | Inr p \<Rightarrow> Inr (source p)))"

text \<open>
  One entry of \<^verbatim>\<open>df["source"] == value\<close>. The entry is a byte string: it is not equal
  to any \<^verbatim>\<open>str\<close>, and it is equal to a \<^verbatim>\<open>bytes\<close> value when the bytes agree up to
  trailing zero bytes.
\<close>

fun column_equals :: "string \<Rightarrow> pystring \<Rightarrow> bool" where
  "column_equals b (PyStr s) = False"
| "column_equals b (PyBytes x) = (b = strip_nul x)"

text \<open>
  Lines 256 to 265: the rows that the \<^verbatim>\<open>source\<close> argument keeps. The argument is
  compared with the \<^verbatim>\<open>str\<close> literals \<^verbatim>\<open>'preferred'\<close> and \<^verbatim>\<open>'all'\<close>; lines 259 and
  264 compare the column with \<^verbatim>\<open>prefsource\<close> and with the argument.
\<close>

definition source_filter ::
    "submission list \<Rightarrow> pystring \<Rightarrow> row list \<Rightarrow> error + row list" where
  "source_filter subs src df =
     (if src = PyStr ''preferred'' then
        (case preferred_source subs df of
           Inl e \<Rightarrow> Inl e
         | Inr prefsource \<Rightarrow>
             Inr (sort_time (filter (\<lambda>r. column_equals (df_source r) (PyStr prefsource)) df)))
      else if src = PyStr ''all'' then Inr (sort_source_time df)
      else Inr (sort_time (filter (\<lambda>r. column_equals (df_source r) src) df)))"

text \<open>
  \<^verbatim>\<open>DetailEvent.get_product\<close>. The order in which Python iterates over the set
  \<^verbatim>\<open>usources\<close> is not fixed by the language; it is the parameter \<open>set_iter\<close>, which
  takes the column \<^verbatim>\<open>df["source"]\<close> to its distinct entries in iteration order. The method
  assigns no attribute of \<^verbatim>\<open>self\<close> and writes nothing into \<^verbatim>\<open>self._jdict\<close>.
\<close>

definition get_product ::
    "(string list \<Rightarrow> string list) \<Rightarrow> detail_event \<Rightarrow> string \<Rightarrow> pystring \<Rightarrow> int
      \<Rightarrow> error + product list" where
  "get_product set_iter ev productName src vers =
     (case products ev productName of
        None \<Rightarrow> Inl (AttributeError No_product_of_type)
      | Some subs \<Rightarrow>
          (case version_table subs of
             Inl e \<Rightarrow> Inl e
           | Inr table \<Rightarrow>
               (case source_filter subs src table of
                  Inl e \<Rightarrow> Inl e
                | Inr df \<Rightarrow>
                    if df = [] then Inl (AttributeError No_products_for_source)
                    else if src = PyStr ''all'' then
                      all_sources_loop productName subs vers df (set_iter (map df_source df))
                    else select_version productName subs vers df)))"


section \<open>Content lookup\<close>

text \<open>
  \<^verbatim>\<open>Product.get_content_name\<close> and \<^verbatim>\<open>Product.get_content_url\<close>. Two calls into the
  standard library are parameters of the model:
  \<^item> \<open>matches contentkey\<close> stands for \<^verbatim>\<open>re.search(regexp+"$", contentkey) is not None\<close>;
  \<^item> \<open>url_path u\<close> stands for \<^verbatim>\<open>urlparse(u).path\<close>.
  \<^verbatim>\<open>parts.path.split("/")[-1]\<close> is the part of the path after its last slash, the
  whole path when it has none.
\<close>

definition last_segment :: "string \<Rightarrow> string" where
  "last_segment path = rev (takeWhile (\<lambda>c. c \<noteq> CHR ''/'') (rev path))"

definition derived_name :: "(string \<Rightarrow> string) \<Rightarrow> content \<Rightarrow> string" where
  "derived_name url_path c = last_segment (url_path (url c))"

text \<open>
  The loop of lines 438 to 446 over \<^verbatim>\<open>self._product["contents"].items()\<close>; its state is
  \<^verbatim>\<open>(content_name, found)\<close>.
\<close>

fun name_scan ::
    "(string \<Rightarrow> bool) \<Rightarrow> (string \<Rightarrow> string) \<Rightarrow> (string \<times> content) list
      \<Rightarrow> string \<times> bool \<Rightarrow> string \<times> bool" where
  "name_scan matches url_path [] (content_name, found) = (content_name, found)"
| "name_scan matches url_path ((contentkey, c) # rest) (content_name, found) =
     (if \<not> matches contentkey then name_scan matches url_path rest (content_name, found)
      else
        (let fname = last_segment (url_path (url c))
         in if length fname < length content_name
            then name_scan matches url_path rest (fname, True)
            else name_scan matches url_path rest (content_name, found)))"

definition get_content_name ::
    "(string \<Rightarrow> bool) \<Rightarrow> (string \<Rightarrow> string) \<Rightarrow> product \<Rightarrow> string option" where
  "get_content_name matches url_path p =
     (case name_scan matches url_path (contents (product_data p))
             (replicate 1000 CHR ''a'', False) of
        (content_name, found) \<Rightarrow> if found then Some content_name else None)"

text \<open>
  The loop of lines 466 to 475; its state is \<^verbatim>\<open>(content_name, content_url, found)\<close>.
\<close>

fun url_scan ::
    "(string \<Rightarrow> bool) \<Rightarrow> (string \<Rightarrow> string) \<Rightarrow> (string \<times> content) list
      \<Rightarrow> string \<times> string \<times> bool \<Rightarrow> string \<times> string \<times> bool" where
  "url_scan matches url_path [] (content_name, content_url, found) =
     (content_name, content_url, found)"
| "url_scan matches url_path ((contentkey, c) # rest) (content_name, content_url, found) =
     (if \<not> matches contentkey
      then url_scan matches url_path rest (content_name, content_url, found)
      else
        (let fname = last_segment (url_path (url c))
         in if length fname < length content_name
            then url_scan matches url_path rest (fname, url c, True)
            else url_scan matches url_path rest (content_name, content_url, found)))"

definition get_content_url ::
    "(string \<Rightarrow> bool) \<Rightarrow> (string \<Rightarrow> string) \<Rightarrow> product \<Rightarrow> string option" where
  "get_content_url matches url_path p =
     (case url_scan matches url_path (contents (product_data p))
             (replicate 1000 CHR ''a'', [], False) of
        (content_name, content_url, found) \<Rightarrow> if found then Some content_url else None)"

text \<open>
  The derived file names of the entries whose key matches, in the order of the scan.
\<close>

definition matching_names ::
    "(string \<Rightarrow> bool) \<Rightarrow> (string \<Rightarrow> string) \<Rightarrow> (string \<times> content) list \<Rightarrow> string list" where
  "matching_names matches url_path cs =
     map (\<lambda>kc. derived_name url_path (snd kc)) (filter (\<lambda>kc. matches (fst kc)) cs)"

text \<open>
  Instances of the two parameters, used where a theorem needs a concrete input.
  \<open>literal_at_end lit\<close> is \<^verbatim>\<open>re.search(lit+"$", key) is not None\<close> for a pattern
  \<open>lit\<close> of letters and digits: the key ends with \<open>lit\<close>, or with \<open>lit\<close> and a
  final newline. \<open>urlparse_path\<close> is \<^verbatim>\<open>urlparse(u).path\<close> for a URL of the form
  \<^verbatim>\<open>scheme://netloc/path?query#fragment\<close> whose last path segment has no semicolon.
\<close>

definition literal_at_end :: "string \<Rightarrow> string \<Rightarrow> bool" where
  "literal_at_end lit key = (suffix lit key \<or> suffix (lit @ [CHR 0x0A]) key)"

definition urlparse_path :: "string \<Rightarrow> string" where
  "urlparse_path u =
     (let after_scheme = drop 1 (dropWhile (\<lambda>c. c \<noteq> CHR '':'') u);
          after_netloc =
            (if take 2 after_scheme = ''//''
             then dropWhile (\<lambda>c. c \<noteq> CHR ''/'' \<and> c \<noteq> CHR ''?'' \<and> c \<noteq> CHR ''#'')
                    (drop 2 after_scheme)
             else after_scheme)
      in takeWhile (\<lambda>c. c \<noteq> CHR ''?'' \<and> c \<noteq> CHR ''#'') after_netloc)"

section \<open>The copy held by a Product\<close>

text \<open>
  \<^verbatim>\<open>Product.__init__\<close> stores \<^verbatim>\<open>product.copy()\<close>. What the copy shares with the
  document is a question of object identity, so this section makes the store explicit: a
  heap is a list of dictionary objects, an address is a position in it, and a value of a
  dictionary is a number, a string or the address of another dictionary. The submission
  passed to the constructor is the address of its dictionary in the document.
\<close>

type_synonym addr = nat

datatype pyval = Num int | Str string | Ref addr

type_synonym pydict = "string \<rightharpoonup> pyval"

type_synonym heap = "pydict list"

record product_obj =
  obj_product_name :: string
  obj_version :: int
  obj_product :: addr

text \<open>\<^verbatim>\<open>dict.copy()\<close>: a new dictionary object with the same keys and the same values.\<close>

definition dict_copy :: "heap \<Rightarrow> addr \<Rightarrow> addr \<times> heap" where
  "dict_copy h a = (length h, h @ [h ! a])"

definition Product_init :: "heap \<Rightarrow> string \<Rightarrow> int \<Rightarrow> addr \<Rightarrow> product_obj \<times> heap" where
  "Product_init h name vers product_addr =
     (case dict_copy h product_addr of
        (a, h') \<Rightarrow>
          (\<lparr>obj_product_name = name, obj_version = vers, obj_product = a\<rparr>, h'))"

text \<open>
  What a caller can do through a Product. \<open>write_own\<close> replaces the Product's own
  dictionary by any other contents: every assignment, deletion or update of a top-level
  key of \<^verbatim>\<open>p._product\<close> is one of these. \<open>setitem_nested\<close> is
  \<^verbatim>\<open>p._product[field][key] = v\<close>: it looks \<open>field\<close> up in the Product's dictionary
  and stores into the dictionary found there.
\<close>

datatype lookup_error = KeyError | TypeError

definition write_own :: "heap \<Rightarrow> product_obj \<Rightarrow> pydict \<Rightarrow> heap" where
  "write_own h p d = h[obj_product p := d]"

definition setitem_nested ::
    "heap \<Rightarrow> product_obj \<Rightarrow> string \<Rightarrow> string \<Rightarrow> pyval \<Rightarrow> lookup_error + heap" where
  "setitem_nested h p field key v =
     (case (h ! obj_product p) field of
        None \<Rightarrow> Inl KeyError
      | Some (Ref a) \<Rightarrow> Inr (h[a := (h ! a)(key \<mapsto> v)])
      | Some _ \<Rightarrow> Inl TypeError)"

section \<open>Example documents\<close>

text \<open>
  The submissions of type \<^verbatim>\<open>origin\<close> of the specification's example:
  \<^verbatim>\<open>(us, weight 1, t 100)\<close>, \<^verbatim>\<open>(us, weight 2, t 200)\<close>, \<^verbatim>\<open>(ci, weight 5, t 150)\<close>.
\<close>

definition raw_submission :: "string \<Rightarrow> int \<Rightarrow> int \<Rightarrow> submission" where
  "raw_submission s w t =
     \<lparr>preferredWeight = w, source = s, updateTime = t, properties = [], contents = []\<rparr>"

definition example_submissions :: "submission list" where
  "example_submissions =
     [raw_submission ''us'' 1 100, raw_submission ''us'' 2 200, raw_submission ''ci'' 5 150]"

definition example_event :: detail_event where
  "example_event =
     \<lparr>event_id = ''ci1'', time_in_msec = 1562383193040,
      products = [''origin'' \<mapsto> example_submissions]\<rparr>"

text \<open>
  Two submissions whose sources differ only in the 65th character: the first source has
  64 characters, the second the same 64 and one more.
\<close>

definition long_source_submissions :: "submission list" where
  "long_source_submissions =
     [raw_submission (replicate 64 CHR ''a'') 1 100,
      raw_submission (replicate 64 CHR ''a'' @ ''b'') 1 200]"

text \<open>A document whose product type \<^verbatim>\<open>origin\<close> is present with no submission.\<close>

definition empty_type_event :: detail_event where
  "empty_type_event =
     \<lparr>event_id = ''ci2'', time_in_msec = 1562383193040, products = [''origin'' \<mapsto> []]\<rparr>"

text \<open>
  A product with two content entries whose keys end in \<^verbatim>\<open>xml\<close> and whose file names
  have eight characters each.
\<close>

definition tie_product :: product where
  "tie_product =
     \<lparr>product_name = ''shakemap'', version = 1,
      product_data =
        \<lparr>preferredWeight = 1, source = ''ci'', updateTime = 100, properties = [],
         contents =
           [(''download/grid.xml'',
               \<lparr>url = ''https://earthquake.usgs.gov/product/shakemap/ci1/grid.xml''\<rparr>),
            (''download/info.xml'',
               \<lparr>url = ''https://earthquake.usgs.gov/product/shakemap/ci1/info.xml''\<rparr>)]\<rparr>\<rparr>"

text \<open>A product whose only content entry has a file name of 1000 characters.\<close>

definition long_name_product :: product where
  "long_name_product =
     \<lparr>product_name = ''shakemap'', version = 1,
      product_data =
        \<lparr>preferredWeight = 1, source = ''ci'', updateTime = 100, properties = [],
         contents =
           [(''download/grid.xml'',
               \<lparr>url = ''https://h/'' @ replicate 1000 CHR ''g''\<rparr>)]\<rparr>\<rparr>"

text \<open>
  A store that holds one submission of a document at address 0; its \<^verbatim>\<open>properties\<close>
  and \<^verbatim>\<open>contents\<close> dictionaries are the objects at the addresses 1 and 2.
\<close>

definition example_heap :: heap where
  "example_heap =
     [[''source'' \<mapsto> Str ''ci'', ''preferredWeight'' \<mapsto> Num 5, ''updateTime'' \<mapsto> Num 150,
       ''properties'' \<mapsto> Ref 1, ''contents'' \<mapsto> Ref 2],
      [''magnitude'' \<mapsto> Str ''5.0''],
      Map.empty]"

section \<open>Theorems\<close>

subsection \<open>Time decomposition\<close>

text \<open>
  C7. For every integer epoch-millisecond value the derivation computes whole seconds
  \<open>s = T div 1000\<close> and a remainder \<open>m = T - 1000 * s\<close> with \<open>s * 1000 + m = T\<close> and
  \<open>0 \<le> m < 1000\<close>, for the origin time of an event and for the update time of a product
  alike; the millisecond value is therefore recovered exactly from the pair.
\<close>

theorem split_msec_lossless:
  "fst (DetailEvent_time ev) = time_in_msec ev div 1000
   \<and> snd (DetailEvent_time ev) = time_in_msec ev - 1000 * fst (DetailEvent_time ev)
   \<and> fst (DetailEvent_time ev) * 1000 + snd (DetailEvent_time ev) = time_in_msec ev
   \<and> 0 \<le> snd (DetailEvent_time ev) \<and> snd (DetailEvent_time ev) < 1000
   \<and> fst (Product_update_time p) * 1000 + snd (Product_update_time p)
       = updateTime (product_data p)
   \<and> 0 \<le> snd (Product_update_time p) \<and> snd (Product_update_time p) < 1000"
proof -
  have parts: "fst (split_msec t) * 1000 + snd (split_msec t) = t
      \<and> 0 \<le> snd (split_msec t) \<and> snd (split_msec t) < 1000
      \<and> fst (split_msec t) = t div 1000
      \<and> snd (split_msec t) = t - 1000 * fst (split_msec t)" for t :: int
  proof -
    have "t - t div 1000 * 1000 = t mod 1000"
      by (simp add: minus_div_mult_eq_mod)
    then show ?thesis
      by (simp add: split_msec_def Let_def)
  qed
  show ?thesis
    using parts [of "time_in_msec ev"] parts [of "updateTime (product_data p)"]
    by (simp add: DetailEvent_time_def Product_update_time_def)
qed

subsection \<open>The version table\<close>


lemma assign_versions_cols:
  "map df_source (assign_versions ps pv rows) = map df_source rows
   \<and> map df_time (assign_versions ps pv rows) = map df_time rows
   \<and> map df_index (assign_versions ps pv rows) = map df_index rows
   \<and> map df_weight (assign_versions ps pv rows) = map df_weight rows"
  by (induction rows arbitrary: ps pv) (simp_all add: Let_def)

lemma assign_versions_filter_cols:
  "map df_time (filter (\<lambda>r. df_source r = s) (assign_versions ps pv rows))
     = map df_time (filter (\<lambda>r. df_source r = s) rows)
   \<and> map df_index (filter (\<lambda>r. df_source r = s) (assign_versions ps pv rows))
     = map df_index (filter (\<lambda>r. df_source r = s) rows)"
  by (induction rows arbitrary: ps pv) (simp_all add: Let_def)

lemma assign_versions_run:
  assumes "sorted (map df_source rows)"
      and "\<forall>p\<in>set ps. p \<le> c" and "c \<in> set ps"
      and "\<forall>r\<in>set rows. c \<le> df_source r"
  shows "map df_version (filter (\<lambda>r. df_source r = s) (assign_versions ps pv rows))
         = (if s = c then [pv .. pv + int (length (filter (\<lambda>r. df_source r = s) rows)) - 1]
            else [1 .. int (length (filter (\<lambda>r. df_source r = s) rows))])"
  using assms
proof (induction rows arbitrary: ps pv c)
  case Nil
  then show ?case by simp
next
  case (Cons r rest)
  have srt: "sorted (map df_source rest)" and ge: "\<forall>x\<in>set rest. df_source r \<le> df_source x"
    using Cons.prems(1) by auto
  show ?case
  proof (cases "df_source r = c")
    case True
    then have old: "df_source r \<in> set ps" using Cons.prems(3) by simp
    have ih: "map df_version (filter (\<lambda>r. df_source r = s) (assign_versions ps (pv + 1) rest))
         = (if s = c then [pv + 1 .. pv + 1 + int (length (filter (\<lambda>r. df_source r = s) rest)) - 1]
            else [1 .. int (length (filter (\<lambda>r. df_source r = s) rest))])"
      using Cons.IH [OF srt Cons.prems(2) Cons.prems(3), of "pv + 1"] Cons.prems(4) by simp
    show ?thesis
    proof (cases "s = c")
      case True
      with \<open>df_source r = c\<close> old ih show ?thesis
        by (simp add: Let_def upto_rec1 [of pv])
    next
      case False
      with \<open>df_source r = c\<close> old ih show ?thesis
        by (simp add: Let_def)
    qed
  next
    case False
    then have lt: "c < df_source r" using Cons.prems(4) by (simp add: order.strict_iff_order)
    then have new: "df_source r \<notin> set ps" using Cons.prems(2) by auto
    have p2: "\<forall>p\<in>set (ps @ [df_source r]). p \<le> df_source r"
      using Cons.prems(2) lt by auto
    have ih: "map df_version (filter (\<lambda>r. df_source r = s) (assign_versions (ps @ [df_source r]) 2 rest))
         = (if s = df_source r then [2 .. 2 + int (length (filter (\<lambda>r. df_source r = s) rest)) - 1]
            else [1 .. int (length (filter (\<lambda>r. df_source r = s) rest))])"
      using Cons.IH [OF srt p2 _ ge, of 2] by simp
    have none: "filter (\<lambda>x. df_source x = c) rest = []"
      using ge lt by (auto simp: filter_empty_conv)
    show ?thesis
    proof (cases "s = df_source r")
      case True
      with False new ih show ?thesis
        by (simp add: Let_def upto_rec1 [of 1])
    next
      case ne: False
      show ?thesis
      proof (cases "s = c")
        case True
        with False new none ne ih show ?thesis by (simp add: Let_def)
      next
        case False
        with ne new ih show ?thesis by (simp add: Let_def)
      qed
    qed
  qed
qed

lemma assign_versions_start:
  assumes "sorted (map df_source rows)"
  shows "map df_version (filter (\<lambda>r. df_source r = s) (assign_versions [] 1 rows))
         = [1 .. int (length (filter (\<lambda>r. df_source r = s) rows))]"
proof (cases rows)
  case Nil
  then show ?thesis by simp
next
  case (Cons r rest)
  have srt: "sorted (map df_source rest)" and ge: "\<forall>x\<in>set rest. df_source r \<le> df_source x"
    using assms Cons by auto
  have run: "map df_version (filter (\<lambda>r. df_source r = s) (assign_versions [df_source r] 2 rest))
         = (if s = df_source r then [2 .. 2 + int (length (filter (\<lambda>r. df_source r = s) rest)) - 1]
            else [1 .. int (length (filter (\<lambda>r. df_source r = s) rest))])"
    using assign_versions_run [OF srt _ _ ge, of "[df_source r]" s 2] by simp
  show ?thesis
  proof (cases "s = df_source r")
    case True
    with Cons run show ?thesis by (simp add: Let_def upto_rec1 [of 1])
  next
    case False
    with Cons run show ?thesis by (simp add: Let_def)
  qed
qed

lemma build_rows_length: "length (build_rows subs) = length subs"
  by (simp add: build_rows_def)

lemma build_rows_nth:
  "i < length subs \<Longrightarrow>
     build_rows subs ! i
       = \<lparr>df_weight = preferredWeight (subs ! i), df_source = S64 (source (subs ! i)),
          df_time = updateTime (subs ! i), df_index = i, df_version = 0\<rparr>"
  by (simp add: build_rows_def nth_enumerate_eq)

lemma build_rows_index: "map df_index (build_rows subs) = [0..<length subs]"
  by (rule nth_equalityI) (simp_all add: build_rows_length build_rows_nth)

lemma build_rows_source: "map df_source (build_rows subs) = map (\<lambda>p. S64 (source p)) subs"
  by (rule nth_equalityI) (simp_all add: build_rows_length build_rows_nth)

lemma build_rows_mem:
  assumes "r \<in> set (build_rows subs)"
  shows "df_index r < length subs \<and> df_source r = S64 (source (subs ! df_index r))
         \<and> df_time r = updateTime (subs ! df_index r)
         \<and> df_weight r = preferredWeight (subs ! df_index r)"
proof -
  from assms obtain i where "i < length subs" "r = build_rows subs ! i"
    by (metis in_set_conv_nth build_rows_length)
  then show ?thesis by (simp add: build_rows_nth)
qed

lemma build_rows_filter_length:
  "length (filter (\<lambda>r. df_source r = s) (build_rows subs))
     = length (filter (\<lambda>p. S64 (source p) = s) subs)"
proof -
  have "length (filter (\<lambda>x. x = s) (map df_source (build_rows subs)))
          = length (filter (\<lambda>x. x = s) (map (\<lambda>p. S64 (source p)) subs))"
    by (simp only: build_rows_source)
  then show ?thesis by (simp add: filter_map comp_def)
qed

lemma make_rows_Inr: "make_rows subs = Inr df \<Longrightarrow> df = build_rows subs"
  by (simp add: make_rows_def split: if_splits)

lemma fits_columns_S64: "fits_columns p \<Longrightarrow> S64 (source p) = source p"
  by (simp add: fits_columns_def S64_def)

lemma fits_columns_make_rows:
  assumes "list_all fits_columns subs"
  shows "make_rows subs = Inr (build_rows subs)"
proof -
  have "list_all (\<lambda>p. in_int32 (preferredWeight p)) subs"
    and "list_all (\<lambda>p. is_ascii (source p)) subs"
    and "list_all (\<lambda>p. in_int64 (updateTime p)) subs"
    using assms by (auto simp: list_all_iff fits_columns_def)
  then show ?thesis by (simp add: make_rows_def)
qed

lemma sort_source_time_sorted_source: "sorted (map df_source (sort_source_time df))"
proof -
  have "sorted (map key_source_time (sort_source_time df))"
    by (simp add: sort_source_time_def)
  then have "sorted_wrt (\<lambda>a b. key_source_time a \<le> key_source_time b) (sort_source_time df)"
    by (simp add: sorted_map)
  then have "sorted_wrt (\<lambda>a b. df_source a \<le> df_source b) (sort_source_time df)"
    by (rule sorted_wrt_mono_rel [rotated]) (auto simp: key_source_time_def less_eq_prod_def)
  then show ?thesis by (simp add: sorted_map)
qed

lemma sort_source_time_sorted_time:
  "sorted (map df_time (filter (\<lambda>r. df_source r = s) (sort_source_time df)))"
proof -
  have "sorted (map key_source_time (sort_source_time df))"
    by (simp add: sort_source_time_def)
  then have "sorted_wrt (\<lambda>a b. key_source_time a \<le> key_source_time b) (sort_source_time df)"
    by (simp add: sorted_map)
  then have "sorted_wrt (\<lambda>a b. key_source_time a \<le> key_source_time b)
               (filter (\<lambda>r. df_source r = s) (sort_source_time df))"
    by (rule sorted_wrt_filter)
  then have "sorted_wrt (\<lambda>a b. df_time a \<le> df_time b)
               (filter (\<lambda>r. df_source r = s) (sort_source_time df))"
    by (rule sorted_wrt_mono_rel [rotated]) (auto simp: key_source_time_def less_eq_prod_def)
  then show ?thesis by (simp add: sorted_map)
qed

lemma sort_source_time_filter_length:
  "length (filter P (sort_source_time df)) = length (filter P df)"
proof -
  have "mset (filter P (sort_source_time df)) = mset (filter P df)"
    by (simp add: sort_source_time_def)
  then show ?thesis by (metis size_mset)
qed

lemma assign_versions_mem:
  "r \<in> set (assign_versions ps pv rows) \<Longrightarrow> \<exists>r0\<in>set rows. \<exists>v. r = r0\<lparr>df_version := v\<rparr>"
  by (induction rows arbitrary: ps pv) (auto simp: Let_def split: if_splits)

lemma version_table_Inr:
  "version_table subs = Inr table
     \<Longrightarrow> table = assign_versions [] 1 (sort_source_time (build_rows subs))"
  by (auto simp: version_table_def split: sum.splits dest: make_rows_Inr)

lemma version_table_mem:
  assumes "version_table subs = Inr table" and "r \<in> set table"
  shows "df_index r < length subs \<and> df_source r = S64 (source (subs ! df_index r))
         \<and> df_time r = updateTime (subs ! df_index r)
         \<and> df_weight r = preferredWeight (subs ! df_index r)"
proof -
  from assms obtain r0 v
    where "r0 \<in> set (sort_source_time (build_rows subs))" "r = r0\<lparr>df_version := v\<rparr>"
    using assign_versions_mem version_table_Inr by blast
  then have "r0 \<in> set (build_rows subs)" "r = r0\<lparr>df_version := v\<rparr>"
    by (simp_all add: sort_source_time_def)
  then show ?thesis using build_rows_mem [of r0 subs] by simp
qed

lemma version_table_index_perm:
  assumes "version_table subs = Inr table"
  shows "mset (map df_index table) = mset [0..<length subs]"
proof -
  have "map df_index table = map df_index (sort_source_time (build_rows subs))"
    using version_table_Inr [OF assms] by (simp add: assign_versions_cols)
  moreover have "mset (map df_index (sort_source_time (build_rows subs)))
                   = mset (map df_index (build_rows subs))"
    by (simp add: sort_source_time_def)
  ultimately show ?thesis by (simp add: build_rows_index)
qed

text \<open>
  The numbering in terms of the column: the rows with the entry \<open>s\<close> are numbered
  1, 2, 3, ... in ascending time, whatever the submissions are.
\<close>

lemma version_table_column_versions:
  assumes "version_table subs = Inr table"
  shows "map df_version (filter (\<lambda>r. df_source r = s) table)
           = [1 .. int (length (filter (\<lambda>p. S64 (source p) = s) subs))]
         \<and> sorted (map df_time (filter (\<lambda>r. df_source r = s) table))"
proof -
  let ?sorted = "sort_source_time (build_rows subs)"
  have table: "table = assign_versions [] 1 ?sorted"
    by (rule version_table_Inr [OF assms])
  have "map df_version (filter (\<lambda>r. df_source r = s) table)
          = [1 .. int (length (filter (\<lambda>r. df_source r = s) ?sorted))]"
    unfolding table
    by (rule assign_versions_start) (rule sort_source_time_sorted_source)
  then have versions: "map df_version (filter (\<lambda>r. df_source r = s) table)
          = [1 .. int (length (filter (\<lambda>p. S64 (source p) = s) subs))]"
    by (simp add: sort_source_time_filter_length build_rows_filter_length)
  have "map df_time (filter (\<lambda>r. df_source r = s) table)
          = map df_time (filter (\<lambda>r. df_source r = s) ?sorted)"
    unfolding table by (simp add: assign_versions_filter_cols)
  then have "sorted (map df_time (filter (\<lambda>r. df_source r = s) table))"
    by (simp add: sort_source_time_sorted_time)
  with versions show ?thesis by blast
qed

text \<open>
  C3, as amended. For every list of submissions of one product type whose values fit the
  columns of the table (weights in the range of \<^verbatim>\<open>int32\<close>, times in the range of
  \<^verbatim>\<open>int64\<close>, sources of at most 64 ASCII characters that do not end in a zero byte),
  the table is built, and for every source \<open>s\<close> the rows of the table whose source is
  \<open>s\<close>, read in the order of the table, have ascending update times and carry exactly the
  versions 1, 2, 3, ... up to the number of submissions of \<open>s\<close>: no gap, and each source
  starts again at 1. The rows of the table are the submissions: their \<^verbatim>\<open>index\<close> column
  is a permutation of the positions of the list, and a row's source and time are those of
  the submission at its index.
\<close>

theorem version_table_versions:
  assumes "list_all fits_columns subs"
  shows "\<exists>table. version_table subs = Inr table
           \<and> map df_version (filter (\<lambda>r. df_source r = s) table)
               = [1 .. int (length (filter (\<lambda>p. source p = s) subs))]
           \<and> sorted (map df_time (filter (\<lambda>r. df_source r = s) table))
           \<and> mset (map df_index table) = mset [0..<length subs]
           \<and> (\<forall>r\<in>set table.
                 df_index r < length subs
                 \<and> source (subs ! df_index r) = df_source r
                 \<and> updateTime (subs ! df_index r) = df_time r)"
proof -
  let ?table = "assign_versions [] 1 (sort_source_time (build_rows subs))"
  have table: "version_table subs = Inr ?table"
    by (simp add: version_table_def fits_columns_make_rows [OF assms])
  have same: "filter (\<lambda>p. S64 (source p) = s) subs = filter (\<lambda>p. source p = s) subs"
    by (rule filter_cong) (use assms in \<open>auto simp: list_all_iff fits_columns_S64\<close>)
  have versions: "map df_version (filter (\<lambda>r. df_source r = s) ?table)
          = [1 .. int (length (filter (\<lambda>p. source p = s) subs))]"
    and times: "sorted (map df_time (filter (\<lambda>r. df_source r = s) ?table))"
    using version_table_column_versions [OF table, of s] same by simp_all
  have rows: "\<forall>r\<in>set ?table.
         df_index r < length subs
         \<and> source (subs ! df_index r) = df_source r
         \<and> updateTime (subs ! df_index r) = df_time r"
  proof
    fix r assume r: "r \<in> set ?table"
    from version_table_mem [OF table r]
    have idx: "df_index r < length subs"
      and src: "df_source r = S64 (source (subs ! df_index r))"
      and tm: "df_time r = updateTime (subs ! df_index r)"
      by simp_all
    from idx assms have "fits_columns (subs ! df_index r)"
      by (simp add: list_all_length)
    with idx src tm show "df_index r < length subs
         \<and> source (subs ! df_index r) = df_source r
         \<and> updateTime (subs ! df_index r) = df_time r"
      by (simp add: fits_columns_S64)
  qed
  from table versions times version_table_index_perm [OF table] rows show ?thesis
    by blast
qed

theorem version_table_versions_witness:
  "list_all fits_columns example_submissions
   \<and> (\<exists>table. version_table example_submissions = Inr table
         \<and> map df_version (filter (\<lambda>r. df_source r = ''us'') table) = [1, 2]
         \<and> sorted (map df_time (filter (\<lambda>r. df_source r = ''us'') table))
         \<and> mset (map df_index table) = mset [0..<3])"
proof -
  have fits: "list_all fits_columns example_submissions"
    by code_simp
  have us: "int (length (filter (\<lambda>p. source p = ''us'') example_submissions)) = 2"
    by (simp add: example_submissions_def raw_submission_def)
  have len: "length example_submissions = 3"
    by (simp add: example_submissions_def)
  have two: "[1 .. 2 :: int] = [1, 2]"
    by (simp add: upto_rec1)
  from version_table_versions [OF fits, of "''us''"] fits us len two show ?thesis
    by auto
qed

text \<open>
  Without the restriction the numbering follows the column, not the document: the two
  sources of \<open>long_source_submissions\<close> differ, their column entries are the same 64
  characters, and the only submission of the second source gets the version 2.
\<close>

theorem version_table_truncation_counterexample:
  "version_table long_source_submissions
     = Inr [\<lparr>df_weight = 1, df_source = replicate 64 CHR ''a'', df_time = 100,
              df_index = 0, df_version = 1\<rparr>,
            \<lparr>df_weight = 1, df_source = replicate 64 CHR ''a'', df_time = 200,
              df_index = 1, df_version = 2\<rparr>]
   \<and> source (long_source_submissions ! 0) = replicate 64 CHR ''a''
   \<and> source (long_source_submissions ! 1) = replicate 64 CHR ''a'' @ ''b''
   \<and> source (long_source_submissions ! 0) \<noteq> source (long_source_submissions ! 1)"
  by code_simp

subsection \<open>Selection at the example documents\<close>

text \<open>
  C1. What the code does at the specification's example when the source is
  \<^verbatim>\<open>'preferred'\<close>. The rows sorted by source and time have the weights 5, 1, 2, so
  \<^verbatim>\<open>numpy.argmax\<close> is 0; the document's list at position 0 is a submission of
  \<^verbatim>\<open>us\<close>, so \<^verbatim>\<open>prefsource\<close> is \<^verbatim>\<open>us\<close> and not \<^verbatim>\<open>ci\<close>, whose submission has
  the maximum weight. Line 259 then compares the byte strings of the column with that
  \<^verbatim>\<open>str\<close>, keeps no row, and the call ends with the \<^verbatim>\<open>AttributeError\<close> of line 268.
\<close>

theorem preferred_source_example:
  "version_table example_submissions
     = Inr [\<lparr>df_weight = 5, df_source = ''ci'', df_time = 150, df_index = 2, df_version = 1\<rparr>,
            \<lparr>df_weight = 1, df_source = ''us'', df_time = 100, df_index = 0, df_version = 1\<rparr>,
            \<lparr>df_weight = 2, df_source = ''us'', df_time = 200, df_index = 1, df_version = 2\<rparr>]
   \<and> argmax [5, 1, 2] = Inr 0
   \<and> source (example_submissions ! 0) = ''us''
   \<and> preferred_source example_submissions
        [\<lparr>df_weight = 5, df_source = ''ci'', df_time = 150, df_index = 2, df_version = 1\<rparr>,
         \<lparr>df_weight = 1, df_source = ''us'', df_time = 100, df_index = 0, df_version = 1\<rparr>,
         \<lparr>df_weight = 2, df_source = ''us'', df_time = 200, df_index = 1, df_version = 2\<rparr>]
       = Inr ''us''
   \<and> get_product remdups example_event ''origin'' (PyStr ''preferred'') VersionOption_PREFERRED
       = Inl (AttributeError No_products_for_source)"
  by code_simp

text \<open>
  C2. What the code does at the specification's example, three submissions, when both the
  source and the version are "all": the call ends with the \<^verbatim>\<open>AttributeError\<close> of
  \<^verbatim>\<open>iterrows\<close> and returns no product.
\<close>

theorem all_all_example:
  "get_product remdups example_event ''origin'' (PyStr ''all'') VersionOption_ALL
     = Inl (AttributeError No_attribute_iterrows)"
  by code_simp

text \<open>
  C6. What the code does for a product type that is present with zero submissions when the
  source is \<^verbatim>\<open>'preferred'\<close>: \<^verbatim>\<open>numpy.argmax\<close> of the empty weight column raises
  \<^verbatim>\<open>ValueError\<close> before the check of line 267 is reached; with the source
  \<^verbatim>\<open>'all'\<close> or an explicit source the same document gives the \<^verbatim>\<open>AttributeError\<close>
  of line 268.
\<close>

theorem zero_submissions_preferred:
  "get_product remdups empty_type_event ''origin'' (PyStr ''preferred'') VersionOption_PREFERRED
     = Inl ValueError
   \<and> get_product remdups empty_type_event ''origin'' (PyStr ''all'') VersionOption_PREFERRED
     = Inl (AttributeError No_products_for_source)
   \<and> get_product remdups empty_type_event ''origin'' (PyStr ''us'') VersionOption_PREFERRED
     = Inl (AttributeError No_products_for_source)"
  by code_simp

subsection \<open>Version resolution within one group of rows\<close>

lemma sorted_le_last: "sorted xs \<Longrightarrow> x \<in> set xs \<Longrightarrow> x \<le> last xs"
  by (induction xs) auto

lemma last_sort_weight_time:
  assumes "df \<noteq> []"
  shows "last (sort_weight_time df) \<in> set df
         \<and> (\<forall>x\<in>set df. key_weight_time x \<le> key_weight_time (last (sort_weight_time df)))"
proof -
  let ?s = "sort_weight_time df"
  have "length ?s = length df" by (simp add: sort_weight_time_def)
  then have ne: "?s \<noteq> []" using assms by auto
  have set: "set ?s = set df" by (simp add: sort_weight_time_def)
  have srt: "sorted (map key_weight_time ?s)" by (simp add: sort_weight_time_def)
  have mem: "last ?s \<in> set df" using ne set last_in_set by blast
  have "key_weight_time x \<le> key_weight_time (last ?s)" if "x \<in> set df" for x
  proof -
    have "key_weight_time x \<in> set (map key_weight_time ?s)" using that set by simp
    then have "key_weight_time x \<le> last (map key_weight_time ?s)"
      using srt sorted_le_last by blast
    then show ?thesis using ne by (simp add: last_map)
  qed
  with mem show ?thesis by blast
qed

lemma key_weight_time_le:
  "key_weight_time x \<le> key_weight_time r
     \<Longrightarrow> df_weight x \<le> df_weight r \<and> (df_weight x = df_weight r \<longrightarrow> df_time x \<le> df_time r)"
  by (auto simp: key_weight_time_def less_eq_prod_def)

lemma sort_weight_time_sort_time: "sort_weight_time (sort_time df) = sort_weight_time df"
proof -
  have inj: "inj_on key_weight_time (set df)"
    by (rule inj_onI) (simp add: key_weight_time_def)
  have "sort_key key_weight_time df = sort_key key_weight_time (sort_key key_time df)"
    by (rule sort_key_inj_key_eq [OF _ inj]) simp_all
  then show ?thesis by (simp add: sort_weight_time_def sort_time_def)
qed

text \<open>
  C8. For every non-empty group of rows (the rows of one source, each with its index inside
  the document's list), version resolution with the policy \<^verbatim>\<open>PREFERRED\<close> emits exactly
  one Product. It is built from a row of the group whose weight is the maximum of the group
  and whose update time is the latest among the rows of that weight, with that row's version
  and the submission at that row's index. The branch of an explicit or preferred source
  (lines 301 to 306) and the branch of all sources, which sorts the group by time first
  (lines 275 to 281), emit the same Product.
\<close>

theorem select_version_preferred:
  assumes "df \<noteq> []" and "\<forall>r\<in>set df. df_index r < length subs"
  shows "\<exists>r\<in>set df.
           select_version productName subs VersionOption_PREFERRED df
             = Inr [\<lparr>product_name = productName, version = df_version r,
                     product_data = subs ! df_index r\<rparr>]
           \<and> select_version productName subs VersionOption_PREFERRED (sort_time df)
             = Inr [\<lparr>product_name = productName, version = df_version r,
                     product_data = subs ! df_index r\<rparr>]
           \<and> (\<forall>x\<in>set df. df_weight x \<le> df_weight r)
           \<and> (\<forall>x\<in>set df. df_weight x = df_weight r \<longrightarrow> df_time x \<le> df_time r)"
proof -
  let ?r = "last (sort_weight_time df)"
  have ne: "sort_weight_time df \<noteq> []"
  proof -
    have "length (sort_weight_time df) = length df" by (simp add: sort_weight_time_def)
    then show ?thesis using assms(1) by auto
  qed
  from last_sort_weight_time [OF assms(1)]
  have mem: "?r \<in> set df" and top: "\<forall>x\<in>set df. key_weight_time x \<le> key_weight_time ?r"
    by simp_all
  have idx: "df_index ?r < length subs" using mem assms(2) by blast
  have one: "select_version productName subs VersionOption_PREFERRED df
          = Inr [\<lparr>product_name = productName, version = df_version ?r,
                  product_data = subs ! df_index ?r\<rparr>]"
    using ne idx by (simp add: select_version_def last_row_def make_product_def py_index_def)
  have two: "select_version productName subs VersionOption_PREFERRED (sort_time df)
          = Inr [\<lparr>product_name = productName, version = df_version ?r,
                  product_data = subs ! df_index ?r\<rparr>]"
    using ne idx
    by (simp add: select_version_def last_row_def make_product_def py_index_def
        sort_weight_time_sort_time)
  have w: "\<forall>x\<in>set df. df_weight x \<le> df_weight ?r"
    using top key_weight_time_le by blast
  have t: "\<forall>x\<in>set df. df_weight x = df_weight ?r \<longrightarrow> df_time x \<le> df_time ?r"
    using top key_weight_time_le by blast
  from mem one two w t show ?thesis by blast
qed

theorem select_version_preferred_witness:
  "select_version ''origin'' example_submissions VersionOption_PREFERRED
      [\<lparr>df_weight = 1, df_source = ''us'', df_time = 100, df_index = 0, df_version = 1\<rparr>,
       \<lparr>df_weight = 2, df_source = ''us'', df_time = 200, df_index = 1, df_version = 2\<rparr>]
     = Inr [\<lparr>product_name = ''origin'', version = 2,
             product_data = raw_submission ''us'' 2 200\<rparr>]"
proof -
  let ?df = "[\<lparr>df_weight = 1, df_source = ''us'', df_time = 100, df_index = 0, df_version = 1\<rparr>,
              \<lparr>df_weight = 2, df_source = ''us'', df_time = 200, df_index = 1, df_version = 2\<rparr>]"
  have ne: "?df \<noteq> []" by simp
  have idx: "\<forall>r\<in>set ?df. df_index r < length example_submissions"
    by (simp add: example_submissions_def)
  from select_version_preferred [OF ne idx, of "''origin''"]
  obtain r where r: "r \<in> set ?df"
      "select_version ''origin'' example_submissions VersionOption_PREFERRED ?df
         = Inr [\<lparr>product_name = ''origin'', version = df_version r,
                 product_data = example_submissions ! df_index r\<rparr>]"
      "\<forall>x\<in>set ?df. df_weight x \<le> df_weight r"
    by blast
  from r(1,3) have "df_index r = 1 \<and> df_version r = 2" by auto
  with r(2) show ?thesis by (simp add: example_submissions_def)
qed

subsection \<open>Repeated calls\<close>









subsection \<open>Shortest content name\<close>

lemma takeWhile_replicate_append:
  "P c \<Longrightarrow> takeWhile P (replicate n c @ ys) = replicate n c @ takeWhile P ys"
  by (induction n) simp_all

lemma long_name_derived:
  "\<forall>kc\<in>set (contents (product_data long_name_product)).
     derived_name urlparse_path (snd kc) = replicate 1000 CHR ''g''"
  by (simp add: long_name_product_def derived_name_def urlparse_path_def last_segment_def
      takeWhile_replicate_append)

lemma name_scan_keep:
  "\<forall>x\<in>set (matching_names matches url_path cs). length cn \<le> length x
     \<Longrightarrow> name_scan matches url_path cs (cn, f) = (cn, f)"
  by (induction cs) (auto simp: matching_names_def derived_name_def Let_def)

lemma name_scan_first_shortest:
  "matching_names matches url_path cs = pre @ n # post
     \<Longrightarrow> \<forall>x\<in>set pre. length n < length x
     \<Longrightarrow> \<forall>x\<in>set post. length n \<le> length x
     \<Longrightarrow> length n < length cn
     \<Longrightarrow> name_scan matches url_path cs (cn, f) = (n, True)"
proof (induction cs arbitrary: pre cn f)
  case Nil
  then show ?case by (simp add: matching_names_def)
next
  case (Cons kc cs)
  obtain k c where kc: "kc = (k, c)" by (cases kc)
  show ?case
  proof (cases "matches k")
    case False
    then have "matching_names matches url_path cs = pre @ n # post"
      using Cons.prems(1) kc by (simp add: matching_names_def)
    from Cons.IH [OF this Cons.prems(2,3,4)] False kc show ?thesis by simp
  next
    case True
    let ?fname = "last_segment (url_path (url c))"
    have names: "?fname # matching_names matches url_path cs = pre @ n # post"
      using Cons.prems(1) kc True by (simp add: matching_names_def derived_name_def)
    show ?thesis
    proof (cases pre)
      case Nil
      with names have fn: "?fname = n" and rest: "matching_names matches url_path cs = post"
        by simp_all
      have "name_scan matches url_path cs (n, True) = (n, True)"
        by (rule name_scan_keep) (use rest Cons.prems(3) in simp)
      with fn True kc Cons.prems(4) show ?thesis by (simp add: Let_def)
    next
      case (Cons x pre')
      with names have fx: "?fname = x" and rest: "matching_names matches url_path cs = pre' @ n # post"
        by simp_all
      have pre': "\<forall>y\<in>set pre'. length n < length y" and nx: "length n < length x"
        using Cons.prems(2) Cons by simp_all
      show ?thesis
      proof (cases "length x < length cn")
        case True
        have "name_scan matches url_path cs (x, True) = (n, True)"
          using Cons.IH [OF rest pre' Cons.prems(3) nx] .
        with fx \<open>matches k\<close> kc True show ?thesis by (simp add: Let_def)
      next
        case False
        have "name_scan matches url_path cs (cn, f) = (n, True)"
          using Cons.IH [OF rest pre' Cons.prems(3) Cons.prems(4)] .
        with fx \<open>matches k\<close> kc False show ?thesis by (simp add: Let_def)
      qed
    qed
  qed
qed

lemma name_scan_shorter:
  "name_scan matches url_path cs (cn, f) = (cn', f')
     \<Longrightarrow> length cn' \<le> length cn \<and> (f' \<longrightarrow> f \<or> length cn' < length cn)"
proof (induction cs arbitrary: cn f)
  case Nil
  then show ?case by simp
next
  case (Cons kc cs)
  obtain k c where kc: "kc = (k, c)" by (cases kc)
  show ?case
    using Cons.prems Cons.IH kc
    by (fastforce simp: Let_def split: if_splits)
qed

lemma url_scan_keep:
  "\<forall>x\<in>set (matching_names matches url_path cs). length cn \<le> length x
     \<Longrightarrow> url_scan matches url_path cs (cn, cu, f) = (cn, cu, f)"
  by (induction cs) (auto simp: matching_names_def derived_name_def Let_def)

text \<open>
  C4, as amended. When the file names of the matching entries, in scan order, are
  \<open>pre @ n # post\<close> with every name of \<open>pre\<close> strictly longer than \<open>n\<close>, no name of
  \<open>post\<close> shorter than \<open>n\<close>, and \<open>n\<close> shorter than 1000 characters, then
  \<^verbatim>\<open>get_content_name\<close> returns \<open>n\<close>: among the entries that share the minimum length,
  the first one met by the scan wins, because a name replaces the current one only when it
  is strictly shorter.
\<close>

theorem get_content_name_first_match:
  assumes "matching_names matches url_path (contents (product_data p)) = pre @ n # post"
      and "\<forall>x\<in>set pre. length n < length x"
      and "\<forall>x\<in>set post. length n \<le> length x"
      and "length n < 1000"
  shows "get_content_name matches url_path p = Some n"
proof -
  have "name_scan matches url_path (contents (product_data p)) (replicate 1000 CHR ''a'', False)
          = (n, True)"
    by (rule name_scan_first_shortest [OF assms(1,2,3)]) (use assms(4) in simp)
  then show ?thesis by (simp add: get_content_name_def)
qed

theorem get_content_name_first_match_witness:
  "get_content_name (literal_at_end ''xml'') urlparse_path tie_product = Some ''grid.xml''"
proof -
  have names: "matching_names (literal_at_end ''xml'') urlparse_path (contents (product_data tie_product))
          = [] @ ''grid.xml'' # [''info.xml'']"
    by code_simp
  show ?thesis
    using get_content_name_first_match [OF names] by simp
qed

text \<open>
  The two matching entries of \<open>tie_product\<close> have names of the same length, and the
  scan returns the first, not the last.
\<close>

theorem get_content_name_tie_counterexample:
  "matching_names (literal_at_end ''xml'') urlparse_path (contents (product_data tie_product))
     = [''grid.xml'', ''info.xml'']
   \<and> length ''grid.xml'' = length ''info.xml''
   \<and> get_content_name (literal_at_end ''xml'') urlparse_path tie_product = Some ''grid.xml''
   \<and> get_content_name (literal_at_end ''xml'') urlparse_path tie_product \<noteq> Some ''info.xml''"
  by code_simp

text \<open>
  C10. When every content entry has a derived file name of at least 1000 characters,
  \<^verbatim>\<open>get_content_name\<close> and \<^verbatim>\<open>get_content_url\<close> return \<^verbatim>\<open>None\<close>, whether or not
  keys match the pattern: the scan starts from a name of 1000 characters and accepts only
  strictly shorter ones. A name that \<^verbatim>\<open>get_content_name\<close> returns has fewer than 1000
  characters.
\<close>

theorem content_name_sentinel:
  "((\<forall>kc\<in>set (contents (product_data p)). 1000 \<le> length (derived_name url_path (snd kc)))
      \<longrightarrow> get_content_name matches url_path p = None
          \<and> get_content_url matches url_path p = None)
   \<and> (\<forall>n. get_content_name matches url_path p = Some n \<longrightarrow> length n < 1000)"
proof (intro conjI impI allI)
  assume long: "\<forall>kc\<in>set (contents (product_data p)). 1000 \<le> length (derived_name url_path (snd kc))"
  have names: "\<forall>x\<in>set (matching_names matches url_path (contents (product_data p))).
                 length (replicate 1000 CHR ''a'') \<le> length x"
    using long by (auto simp: matching_names_def)
  show "get_content_name matches url_path p = None"
    using name_scan_keep [OF names, of False] by (simp add: get_content_name_def)
  show "get_content_url matches url_path p = None"
    using url_scan_keep [OF names, of "[]" False] by (simp add: get_content_url_def)
next
  fix n
  assume some: "get_content_name matches url_path p = Some n"
  obtain cn f where scan: "name_scan matches url_path (contents (product_data p))
                             (replicate 1000 CHR ''a'', False) = (cn, f)"
    by (cases "name_scan matches url_path (contents (product_data p)) (replicate 1000 CHR ''a'', False)")
  from some scan have "f" and "cn = n"
    by (auto simp: get_content_name_def split: if_splits)
  with name_scan_shorter [OF scan] show "length n < 1000" by simp
qed

theorem content_name_sentinel_witness:
  "literal_at_end ''xml'' (fst (hd (contents (product_data long_name_product))))
   \<and> get_content_name (literal_at_end ''xml'') urlparse_path long_name_product = None
   \<and> get_content_url (literal_at_end ''xml'') urlparse_path long_name_product = None
   \<and> get_content_name (literal_at_end ''xml'') urlparse_path tie_product = Some ''grid.xml''
   \<and> length ''grid.xml'' < (1000::nat)"
proof -
  have long: "\<forall>kc\<in>set (contents (product_data long_name_product)).
                 1000 \<le> length (derived_name urlparse_path (snd kc))"
    using long_name_derived by simp
  have key: "literal_at_end ''xml'' (fst (hd (contents (product_data long_name_product))))"
    by (simp add: long_name_product_def literal_at_end_def suffix_def)
  have tie: "get_content_name (literal_at_end ''xml'') urlparse_path tie_product = Some ''grid.xml''"
    by code_simp
  show ?thesis
    using content_name_sentinel [of long_name_product urlparse_path "literal_at_end ''xml''"]
      content_name_sentinel [of tie_product urlparse_path "literal_at_end ''xml''"]
      long key tie
    by simp
qed

subsection \<open>What the copy of a Product shares\<close>

text \<open>
  C5, as amended. The dictionary that a Product holds is a new object with the items of the
  submission's dictionary. After any write to that dictionary itself (any assignment,
  deletion or replacement of its top-level keys), every object that existed before the
  Product was built, the document's objects among them, is unchanged.
\<close>

theorem product_copy_frame:
  assumes "Product_init h name vers a = (p, h1)"
  shows "obj_product p = length h
         \<and> h1 ! obj_product p = h ! a
         \<and> take (length h) h1 = h
         \<and> (\<forall>d. take (length h) (write_own h1 p d) = h)"
  using assms by (auto simp: Product_init_def dict_copy_def write_own_def)

theorem product_copy_frame_witness:
  "take 3 (write_own (snd (Product_init example_heap ''origin'' 1 0))
             (fst (Product_init example_heap ''origin'' 1 0)) Map.empty) = example_heap"
proof -
  have len: "length example_heap = 3" by (simp add: example_heap_def)
  have init: "Product_init example_heap ''origin'' 1 0
        = (fst (Product_init example_heap ''origin'' 1 0), snd (Product_init example_heap ''origin'' 1 0))"
    by simp
  show ?thesis using product_copy_frame [OF init] len by simp
qed

text \<open>
  The copy has one level. The value under \<^verbatim>\<open>properties\<close> in the Product's dictionary is
  the address of the document's own \<^verbatim>\<open>properties\<close> dictionary, so storing into it
  through the Product changes the document.
\<close>

theorem nested_mutation_counterexample:
  "(case Product_init example_heap ''origin'' 1 0 of
      (p, h1) \<Rightarrow>
        (case setitem_nested h1 p ''properties'' ''magnitude'' (Str ''9.9'') of
           Inl e \<Rightarrow> False
         | Inr h2 \<Rightarrow>
             (example_heap ! 0) ''properties'' = Some (Ref 1)
             \<and> (example_heap ! 1) ''magnitude'' = Some (Str ''5.0'')
             \<and> (h2 ! 1) ''magnitude'' = Some (Str ''9.9'')))"
  by (simp add: Product_init_def dict_copy_def setitem_nested_def example_heap_def)

end
